theory Spec2Isabelle
  imports Complex_Main "HOL-Library.Char_ord" "HOL-Library.List_Lexorder" "HOL-Library.Multiset"
begin

section \<open>JavaScript values, strings and built-ins\<close>

text \<open>
  The development follows \<^verbatim>\<open>src/exercises/exercise-15/database.ts\<close>: the class
  Database over a record type T, with its methods find, insert, delete, project, sort,
  matchesQuery, matchesPropertyQuery, matchesCondition, getObjectKeys and getRecords.

  Scope of the value model. A record is a JSON object whose fields hold JSON scalars:
  null, booleans, numbers and strings; reading an absent field gives undefined. Every
  record the class handles comes out of JSON.parse, so a number is a finite double and
  is modelled as a real (no NaN, no infinity). On these values the strict equality
  \<^verbatim>\<open>===\<close> and the SameValueZero of Array.prototype.includes are equality of
  values. Array- and object-valued fields are outside the model.

  A string is a list of code units below 256 (Latin-1).
\<close>

datatype val = VUndefined | VNull | VBool bool | VNum real | VStr string

type_synonym jrecord = "(string \<times> val) list"

definition field_of :: "jrecord \<Rightarrow> string \<Rightarrow> val" where
  \<comment> \<open>\<^verbatim>\<open>record[key]\<close>\<close>
  "field_of r k = (case map_of r k of None \<Rightarrow> VUndefined | Some v \<Rightarrow> v)"

datatype io_error = ENOENT | EACCES | EIO

datatype error = TypeError | SyntaxError | IOError io_error

text \<open>
  How a promise returned by the class ends. \<open>Fatal\<close> is an exception thrown inside a
  callback of the fs module: it reaches no promise, so the promise never settles, and
  the exception is an uncaught exception of the process.
\<close>

datatype 'a outcome = Resolved 'a | Rejected error | Fatal error

text \<open>
  The built-ins the class calls and the source does not define are parameters of the
  model: JSON.stringify and JSON.parse on records (\<open>None\<close> when JSON.parse throws
  a SyntaxError), and the conversion of a string to a number that the relational
  operators apply to a string compared with a non-string (\<open>None\<close> for NaN).
\<close>

record js_env =
  JSON_stringify :: "jrecord \<Rightarrow> string"
  JSON_parse :: "string \<Rightarrow> jrecord option"
  StringToNumber :: "string \<Rightarrow> real option"

definition newline :: char where
  "newline = CHR 0x0A"

definition is_ws :: "char \<Rightarrow> bool" where
  \<comment> \<open>White space and line terminators of ECMAScript among the code units below 256.\<close>
  "is_ws c = (c \<in> set [CHR 0x09, CHR 0x0A, CHR 0x0B, CHR 0x0C, CHR 0x0D, CHR 0x20, CHR 0xA0])"

definition trim :: "string \<Rightarrow> string" where
  \<comment> \<open>String.prototype.trim\<close>
  "trim s = rev (dropWhile is_ws (rev (dropWhile is_ws s)))"

fun split_on :: "char \<Rightarrow> string \<Rightarrow> string list" where
  \<comment> \<open>String.prototype.split with a one-character separator: the empty string splits
      into one empty string, and adjacent separators give empty strings.\<close>
  "split_on sep [] = [[]]"
| "split_on sep (c # cs) =
     (if c = sep then [] # split_on sep cs
      else (case split_on sep cs of [] \<Rightarrow> [[c]] | w # ws \<Rightarrow> (c # w) # ws))"

definition lower_char :: "char \<Rightarrow> char" where
  "lower_char c =
     (let n = (of_char c :: nat)
      in if (65 \<le> n \<and> n \<le> 90) \<or> (192 \<le> n \<and> n \<le> 222 \<and> n \<noteq> 215)
         then char_of (n + 32) else c)"

definition toLowerCase :: "string \<Rightarrow> string" where
  \<comment> \<open>String.prototype.toLowerCase\<close>
  "toLowerCase s = map lower_char s"

definition ToNumber :: "js_env \<Rightarrow> val \<Rightarrow> real option" where
  "ToNumber env v =
     (case v of
        VUndefined \<Rightarrow> None
      | VNull \<Rightarrow> Some 0
      | VBool b \<Rightarrow> Some (if b then 1 else 0)
      | VNum x \<Rightarrow> Some x
      | VStr s \<Rightarrow> StringToNumber env s)"

definition js_lt :: "js_env \<Rightarrow> val \<Rightarrow> val \<Rightarrow> bool" where
  \<comment> \<open>\<^verbatim>\<open>a < b\<close>: two strings compare by code units, anything else as numbers,
      and a comparison with NaN is false.\<close>
  "js_lt env a b =
     (case (a, b) of
        (VStr s, VStr t) \<Rightarrow> s < t
      | _ \<Rightarrow> (case (ToNumber env a, ToNumber env b) of
                 (Some x, Some y) \<Rightarrow> x < y
               | _ \<Rightarrow> False))"

definition js_gt :: "js_env \<Rightarrow> val \<Rightarrow> val \<Rightarrow> bool" where
  \<comment> \<open>\<^verbatim>\<open>a > b\<close> is the comparison \<^verbatim>\<open>b < a\<close>.\<close>
  "js_gt env a b = js_lt env b a"

fun every :: "('a \<Rightarrow> error + bool) \<Rightarrow> 'a list \<Rightarrow> error + bool" where
  \<comment> \<open>Array.prototype.every: stops at the first false, or at the first exception.\<close>
  "every f [] = Inr True"
| "every f (x # xs) =
     (case f x of Inl e \<Rightarrow> Inl e | Inr b \<Rightarrow> if b then every f xs else Inr False)"

fun some :: "('a \<Rightarrow> error + bool) \<Rightarrow> 'a list \<Rightarrow> error + bool" where
  \<comment> \<open>Array.prototype.some: stops at the first true, or at the first exception.\<close>
  "some f [] = Inr False"
| "some f (x # xs) =
     (case f x of Inl e \<Rightarrow> Inl e | Inr b \<Rightarrow> if b then Inr True else some f xs)"

fun filterE :: "('a \<Rightarrow> error + bool) \<Rightarrow> 'a list \<Rightarrow> error + 'a list" where
  \<comment> \<open>Array.prototype.filter with a callback that may throw.\<close>
  "filterE f [] = Inr []"
| "filterE f (x # xs) =
     (case f x of Inl e \<Rightarrow> Inl e
      | Inr b \<Rightarrow> (case filterE f xs of Inl e \<Rightarrow> Inl e
                  | Inr ys \<Rightarrow> Inr (if b then x # ys else ys)))"

fun mapE :: "('a \<Rightarrow> error + 'b) \<Rightarrow> 'a list \<Rightarrow> error + 'b list" where
  \<comment> \<open>Array.prototype.map with a callback that may throw.\<close>
  "mapE f [] = Inr []"
| "mapE f (x # xs) =
     (case f x of Inl e \<Rightarrow> Inl e
      | Inr y \<Rightarrow> (case mapE f xs of Inl e \<Rightarrow> Inl e | Inr ys \<Rightarrow> Inr (y # ys)))"

lemma every_cong [fundef_cong]:
  "xs = ys \<Longrightarrow> (\<And>x. x \<in> set ys \<Longrightarrow> f x = g x) \<Longrightarrow> every f xs = every g ys"
  by (induction ys arbitrary: xs) (auto split: sum.splits)

lemma some_cong [fundef_cong]:
  "xs = ys \<Longrightarrow> (\<And>x. x \<in> set ys \<Longrightarrow> f x = g x) \<Longrightarrow> some f xs = some g ys"
  by (induction ys arbitrary: xs) (auto split: sum.splits)

text \<open>
  Array.prototype.sort with a comparator: a stable sort (ECMAScript 2019), here the
  insertion sort. An element goes before the first element it does not compare
  greater than.
\<close>

fun insert_by :: "('a \<Rightarrow> 'a \<Rightarrow> int) \<Rightarrow> 'a \<Rightarrow> 'a list \<Rightarrow> 'a list" where
  "insert_by cmp x [] = [x]"
| "insert_by cmp x (y # ys) = (if cmp x y \<le> 0 then x # y # ys else y # insert_by cmp x ys)"

definition array_sort :: "('a \<Rightarrow> 'a \<Rightarrow> int) \<Rightarrow> 'a list \<Rightarrow> 'a list" where
  "array_sort cmp xs = foldr (insert_by cmp) xs []"

section \<open>The file system\<close>

text \<open>
  The backing file, as the three calls of the fs module see it: its content (\<open>None\<close>
  when no file is at the path), and the failure, if any, that every read or every write
  of the path meets (permission denied, disk failure). A failed call leaves the file as
  it was.
\<close>

record storage =
  content :: "string option"
  read_fault :: "io_error option"
  write_fault :: "io_error option"

definition fs_readFile :: "storage \<Rightarrow> io_error + string" where
  "fs_readFile st =
     (case read_fault st of
        Some e \<Rightarrow> Inl e
      | None \<Rightarrow> (case content st of None \<Rightarrow> Inl ENOENT | Some s \<Rightarrow> Inr s))"

definition fs_appendFile :: "storage \<Rightarrow> string \<Rightarrow> io_error option \<times> storage" where
  \<comment> \<open>Creates the file when there is none.\<close>
  "fs_appendFile st data =
     (case write_fault st of
        Some e \<Rightarrow> (Some e, st)
      | None \<Rightarrow> (None, st\<lparr>content := Some ((case content st of None \<Rightarrow> [] | Some s \<Rightarrow> s) @ data)\<rparr>))"

definition fs_truncate :: "storage \<Rightarrow> io_error option \<times> storage" where
  \<comment> \<open>\<^verbatim>\<open>fs.truncate(path, 0, cb)\<close>\<close>
  "fs_truncate st =
     (case write_fault st of
        Some e \<Rightarrow> (Some e, st)
      | None \<Rightarrow> (case content st of
                   None \<Rightarrow> (Some ENOENT, st)
                 | Some s \<Rightarrow> (None, st\<lparr>content := Some []\<rparr>)))"

section \<open>Queries\<close>

text \<open>
  A condition object, by the four keys matchesCondition probes (\<open>None\<close>: the key is
  absent). A query is an object: its keys in the order Object.keys lists them, each with
  its value, which is an array of queries, a string, a condition object or undefined.
  The source tells the query shapes apart by the keys that are present.
\<close>

datatype condition =
  Condition (c_eq: "val option") (c_gt: "val option") (c_lt: "val option") (c_in: "val list option")

datatype query = Query "(string \<times> qvalue) list"
  and qvalue = QArr "query list" | QStr string | QCond condition | QUndefined

definition lookup :: "(string \<times> qvalue) list \<Rightarrow> string \<Rightarrow> qvalue" where
  \<comment> \<open>\<^verbatim>\<open>propertyQuery[key]\<close>\<close>
  "lookup q k = (case map_of q k of None \<Rightarrow> QUndefined | Some v \<Rightarrow> v)"

definition getObjectKeys :: "(string \<times> 'a) list \<Rightarrow> string list" where
  "getObjectKeys x = map fst x"

definition matchesCondition :: "js_env \<Rightarrow> val \<Rightarrow> qvalue \<Rightarrow> error + bool" where
  \<comment> \<open>A falsy condition (undefined, the empty string) does not match; the operator
      \<^verbatim>\<open>in\<close> throws a TypeError on a non-empty string; an object with none of the
      four keys (an array too) falls off the end of the function, and the undefined it
      returns counts as false in every.\<close>
  "matchesCondition env v condition =
     (case condition of
        QUndefined \<Rightarrow> Inr False
      | QStr s \<Rightarrow> if s = [] then Inr False else Inl TypeError
      | QArr qs \<Rightarrow> Inr False
      | QCond c \<Rightarrow>
          (case c_eq c of Some x \<Rightarrow> Inr (v = x)
           | None \<Rightarrow>
          (case c_gt c of Some x \<Rightarrow> Inr (js_gt env v x)
           | None \<Rightarrow>
          (case c_lt c of Some x \<Rightarrow> Inr (js_lt env v x)
           | None \<Rightarrow>
          (case c_in c of Some xs \<Rightarrow> Inr (v \<in> set xs)
           | None \<Rightarrow> Inr False)))))"

definition matchesPropertyQuery :: "js_env \<Rightarrow> jrecord \<Rightarrow> (string \<times> qvalue) list \<Rightarrow> error + bool" where
  "matchesPropertyQuery env r propertyQuery =
     every (\<lambda>key. matchesCondition env (field_of r key) (lookup propertyQuery key))
       (getObjectKeys propertyQuery)"

definition asString :: "val \<Rightarrow> error + string" where
  \<comment> \<open>The receiver of toLowerCase: a value that is not a string has no such method,
      and the call throws a TypeError.\<close>
  "asString v = (case v of VStr s \<Rightarrow> Inr s | _ \<Rightarrow> Inl TypeError)"

definition matchesText :: "string list \<Rightarrow> jrecord \<Rightarrow> string \<Rightarrow> error + bool" where
  \<comment> \<open>The full-text branch of matchesQuery.\<close>
  "matchesText fullTextSearchFieldNames r text =
     (case mapE (\<lambda>key. asString (field_of r key)) fullTextSearchFieldNames of
        Inl e \<Rightarrow> Inl e
      | Inr strs \<Rightarrow>
          (let searchableFieldWords = map (\<lambda>s. split_on CHR '' '' (toLowerCase s)) strs;
               wordsToSearch = split_on CHR '' '' (toLowerCase text)
           in Inr (list_all (\<lambda>x. list_ex (\<lambda>y. x \<in> set y) searchableFieldWords) wordsToSearch)))"

lemma size_lookup_arr:
  "map_of kvs k = Some (QArr qs) \<Longrightarrow> q \<in> set qs \<Longrightarrow> size q < size (Query kvs)"
proof (induction kvs)
  case Nil
  then show ?case by simp
next
  case (Cons kv kvs)
  have "size q < Suc (size_list size qs)"
    using Cons.prems(2) by (induction qs) auto
  then show ?case using Cons by (cases kv) (auto split: if_splits)
qed

function matchesQuery :: "js_env \<Rightarrow> string list \<Rightarrow> jrecord \<Rightarrow> query \<Rightarrow> error + bool" where
  "matchesQuery env names r (Query q) =
     (case map_of q ''$and'' of
        Some v \<Rightarrow> (case v of QArr qs \<Rightarrow> every (matchesQuery env names r) qs
                    | _ \<Rightarrow> Inl TypeError)
      | None \<Rightarrow>
     (case map_of q ''$or'' of
        Some v \<Rightarrow> (case v of QArr qs \<Rightarrow> some (matchesQuery env names r) qs
                    | _ \<Rightarrow> Inl TypeError)
      | None \<Rightarrow>
     (case map_of q ''$text'' of
        Some v \<Rightarrow> (case v of QStr s \<Rightarrow> matchesText names r s
                    | _ \<Rightarrow> Inl TypeError)
      | None \<Rightarrow> matchesPropertyQuery env r q)))"
  by pat_completeness auto
termination
  apply (relation "measure (\<lambda>(env, names, r, q). size q)")
  apply simp
  subgoal using size_lookup_arr by fastforce
  subgoal using size_lookup_arr by fastforce
  done

section \<open>The collection\<close>

definition getRecords :: "js_env \<Rightarrow> storage \<Rightarrow> jrecord list outcome" where
  \<comment> \<open>JSON.parse runs inside the callback of fs.readFile: its SyntaxError is thrown
      there, past the promise.\<close>
  "getRecords env st =
     (case fs_readFile st of
        Inl e \<Rightarrow> Rejected (IOError e)
      | Inr data \<Rightarrow>
          (case those (map (\<lambda>x. JSON_parse env (drop 1 x))
                   (filter (\<lambda>x. take 1 x = ''E'') (split_on newline (trim data)))) of
             None \<Rightarrow> Fatal SyntaxError
           | Some records \<Rightarrow> Resolved records))"

definition insert_db :: "js_env \<Rightarrow> jrecord \<Rightarrow> bool \<Rightarrow> storage \<Rightarrow> unit outcome \<times> storage" where
  \<comment> \<open>The method insert. The callback of fs.appendFile resolves the promise whatever
      error it is called with.\<close>
  "insert_db env r asDeleted st =
     (let symbol = (if asDeleted then CHR ''D'' else CHR ''E'');
          (err, st') = fs_appendFile st (symbol # JSON_stringify env r @ [newline])
      in (Resolved (), st'))"

definition project :: "jrecord \<Rightarrow> (string \<times> int) list \<Rightarrow> jrecord" where
  "project r projectionOption = map (\<lambda>(key, flag). (key, field_of r key)) projectionOption"

fun compare_records :: "js_env \<Rightarrow> (string \<times> int) list \<Rightarrow> jrecord \<Rightarrow> jrecord \<Rightarrow> int" where
  \<comment> \<open>The comparator of the method sort; the option lists its keys in the order of
      \<^verbatim>\<open>for (let key in sortOption)\<close>.\<close>
  "compare_records env [] a b = 0"
| "compare_records env ((key, dir) # rest) a b =
     (if js_lt env (field_of a key) (field_of b key) then - dir
      else if js_gt env (field_of a key) (field_of b key) then dir
      else compare_records env rest a b)"

definition sort_db :: "js_env \<Rightarrow> jrecord list \<Rightarrow> (string \<times> int) list \<Rightarrow> jrecord list" where
  \<comment> \<open>The method sort: it sorts the array in place; the model returns the sorted array.\<close>
  "sort_db env records sortOption = array_sort (compare_records env sortOption) records"

record query_options =
  sort_option :: "(string \<times> int) list option"
  projection :: "(string \<times> int) list option"

definition find_db ::
  "js_env \<Rightarrow> string list \<Rightarrow> query \<Rightarrow> query_options option \<Rightarrow> storage
     \<Rightarrow> jrecord list outcome \<times> storage" where
  \<comment> \<open>The method find. An exception of matchesQuery is thrown in the async callback of
      the lock and rejects the promise.\<close>
  "find_db env names query options st =
     (case getRecords env st of
        Rejected e \<Rightarrow> (Rejected e, st)
      | Fatal e \<Rightarrow> (Fatal e, st)
      | Resolved records \<Rightarrow>
          (case filterE (\<lambda>x. matchesQuery env names x query) records of
             Inl e \<Rightarrow> (Rejected e, st)
           | Inr matched \<Rightarrow>
               (let ordered =
                      (case options of
                         None \<Rightarrow> matched
                       | Some opts \<Rightarrow> (case sort_option opts of
                                        None \<Rightarrow> matched
                                      | Some s \<Rightarrow> sort_db env matched s))
                in (case options of
                      None \<Rightarrow> (Resolved ordered, st)
                    | Some opts \<Rightarrow> (case projection opts of
                                     None \<Rightarrow> (Resolved ordered, st)
                                   | Some p \<Rightarrow> (Resolved (map (\<lambda>x. project x p) ordered), st))))))"

text \<open>
  The method delete. Its callback holds the lock while it reads, filters and truncates;
  the callback of truncate drops the error it is called with. Each insert of the forEach
  asks for the same lock and is queued behind the callback, in the order of the array,
  and ahead of every operation asked for after delete has resolved: the model runs the
  queued inserts in that order, with a queue that takes them all.
  \<^verbatim>\<open>recordsToDelete.includes(r)\<close> is membership of the record in the filtered
  array: a record equal to a matching one matches too.
\<close>

definition delete_db ::
  "js_env \<Rightarrow> string list \<Rightarrow> query \<Rightarrow> storage \<Rightarrow> unit outcome \<times> storage" where
  "delete_db env names query st =
     (case getRecords env st of
        Rejected e \<Rightarrow> (Rejected e, st)
      | Fatal e \<Rightarrow> (Fatal e, st)
      | Resolved records \<Rightarrow>
          (case filterE (\<lambda>x. matchesQuery env names x query) records of
             Inl e \<Rightarrow> (Rejected e, st)
           | Inr recordsToDelete \<Rightarrow>
               (let (err, st1) = fs_truncate st
                in (Resolved (),
                    foldl (\<lambda>s r. snd (insert_db env r (r \<in> set recordsToDelete) s)) st1 records))))"

section \<open>Notions the statements use\<close>

subsection \<open>Full-text search\<close>

text \<open>The string a full-text field holds.\<close>

definition the_str :: "val \<Rightarrow> string" where
  "the_str v = (case v of VStr s \<Rightarrow> s | _ \<Rightarrow> [])"

text \<open>
  C4 in the claim's words takes the tokens of the search string to be delimited by white
  space: the maximal runs of characters that are not white space.
\<close>

fun split_where :: "(char \<Rightarrow> bool) \<Rightarrow> string \<Rightarrow> string list" where
  "split_where P [] = [[]]"
| "split_where P (c # cs) =
     (if P c then [] # split_where P cs
      else (case split_where P cs of [] \<Rightarrow> [[c]] | w # ws \<Rightarrow> (c # w) # ws))"

definition whitespace_tokens :: "string \<Rightarrow> string list" where
  "whitespace_tokens s = filter (\<lambda>w. w \<noteq> []) (split_where is_ws s)"

definition claimed_text_match :: "string list \<Rightarrow> jrecord \<Rightarrow> string \<Rightarrow> bool" where
  "claimed_text_match names r s =
     list_all (\<lambda>x. list_ex (\<lambda>k. x \<in> set (split_on CHR '' '' (toLowerCase (the_str (field_of r k))))) names)
       (whitespace_tokens (toLowerCase s))"

subsection \<open>Sorting\<close>







subsection \<open>The log\<close>







section \<open>Example data\<close>

text \<open>
  Three records, and JSON.stringify and JSON.parse on the first two (every other text
  is taken as one JSON.parse rejects); the examples compare no string with a number.
\<close>

definition ann :: jrecord where
  "ann = [(''name'', VStr ''Ann''), (''age'', VNum 30)]"

definition bob :: jrecord where
  "bob = [(''name'', VStr ''Bob''), (''age'', VNum 25)]"


definition example_env :: js_env where
  "example_env =
     \<lparr> JSON_stringify = (\<lambda>r. if r = ann then ''{\"name\":\"Ann\",\"age\":30}''
                              else if r = bob then ''{\"name\":\"Bob\",\"age\":25}''
                              else ''null''),
       JSON_parse = (\<lambda>s. if s = ''{\"name\":\"Ann\",\"age\":30}'' then Some ann
                          else if s = ''{\"name\":\"Bob\",\"age\":25}'' then Some bob
                          else None),
       StringToNumber = (\<lambda>s. None) \<rparr>"

definition bio_record :: "string \<Rightarrow> jrecord" where
  \<comment> \<open>A record with the one full-text field bio.\<close>
  "bio_record s = [(''bio'', VStr s)]"

definition name_is :: "string \<Rightarrow> query" where
  \<comment> \<open>\<^verbatim>\<open>{name: {$eq: s}}\<close>\<close>
  "name_is s = Query [(''name'', QCond (Condition (Some (VStr s)) None None None))]"

text \<open>
  Logs: Ann and Bob, both live; Ann alone; Ann alone with no newline after the line; Ann
  and a line that is cut short; Ann and Bob in a file that can be read and not written.
\<close>

definition example_log :: string where
  "example_log =
     ''E{\"name\":\"Ann\",\"age\":30}'' @ [newline] @ ''E{\"name\":\"Bob\",\"age\":25}'' @ [newline]"

definition example_store :: storage where
  "example_store = \<lparr>content = Some example_log, read_fault = None, write_fault = None\<rparr>"



definition corrupt_log :: storage where
  "corrupt_log =
     \<lparr>content = Some (''E{\"name\":\"Ann\",\"age\":30}'' @ [newline] @ ''E{\"name\":'' @ [newline]),
      read_fault = None, write_fault = None\<rparr>"

definition readonly_log :: storage where
  "readonly_log = \<lparr>content = Some example_log, read_fault = None, write_fault = Some EACCES\<rparr>"

section \<open>Properties of the query matcher\<close>

lemma map_of_eq_conditions:
  "map_of (map (\<lambda>k. (k, f k)) ks) key = (if key \<in> set ks then Some (f key) else None)"
  by (induction ks) auto

lemma every_all_true:
  "(\<And>x. x \<in> set xs \<Longrightarrow> f x = Inr True) \<Longrightarrow> every f xs = Inr True"
  by (induction xs) auto

text \<open>
  C8, as the code has it: a query that gives each of its fields the condition
  \<^verbatim>\<open>{$eq: R.f}\<close>, the value of the same record R, matches R, whatever fields
  it lists, as long as none of them is named \<^verbatim>\<open>$and\<close>, \<^verbatim>\<open>$or\<close> or
  \<^verbatim>\<open>$text\<close>: an object with such a key is not read as a property query.
\<close>

theorem eq_condition_reflexive:
  assumes "''$and'' \<notin> set ks" and "''$or'' \<notin> set ks" and "''$text'' \<notin> set ks"
  shows "matchesQuery env names r
           (Query (map (\<lambda>k. (k, QCond (Condition (Some (field_of r k)) None None None))) ks))
         = Inr True"
  using assms
  by (simp add: map_of_eq_conditions matchesPropertyQuery_def getObjectKeys_def comp_def
        lookup_def matchesCondition_def every_all_true)

theorem eq_condition_reflexive_witness:
  "matchesQuery example_env [] ann
     (Query [(''name'', QCond (Condition (Some (field_of ann ''name'')) None None None)),
             (''age'', QCond (Condition (Some (field_of ann ''age'')) None None None))])
   = Inr True"
  using eq_condition_reflexive [of "[''name'', ''age'']" example_env "[]" ann]
  by simp

text \<open>
  C8 as stated fails for a record with a field named \<^verbatim>\<open>$text\<close>: the query
  \<^verbatim>\<open>{"$text": {$eq: R["$text"]}}\<close> has the key \<^verbatim>\<open>$text\<close>, so matchesQuery
  takes the full-text branch and calls toLowerCase on the condition object, which
  throws a TypeError.
\<close>

theorem eq_condition_reserved_key_counterexample:
  "matchesQuery example_env [] [(''$text'', VStr ''x'')]
     (Query [(''$text'',
        QCond (Condition (Some (field_of [(''$text'', VStr ''x'')] ''$text'')) None None None))])
   = Inl TypeError"
  by simp

lemma every_true_iff:
  "(every f xs = Inr True) = (\<forall>x\<in>set xs. f x = Inr True)"
  by (induction xs) (auto split: sum.splits)

lemma some_true_iff:
  "(\<forall>x\<in>set xs. \<exists>b. f x = Inr b) \<Longrightarrow> (some f xs = Inr True) = (\<exists>x\<in>set xs. f x = Inr True)"
  by (induction xs) (auto split: sum.splits)

text \<open>
  C3: matchesQuery tells the query shapes apart in the order \<^verbatim>\<open>$and\<close>,
  \<^verbatim>\<open>$or\<close>, \<^verbatim>\<open>$text\<close>, property query, whatever other keys the object
  has. A query with the key \<^verbatim>\<open>$and\<close> matches a record exactly when every subquery
  matches it. A query without that key and with the key \<^verbatim>\<open>$or\<close>, none of whose
  subqueries throws on the record, matches it exactly when at least one subquery does.
  Without both keys a query with \<^verbatim>\<open>$text\<close> is the full-text match, and a query
  with none of the three keys is the property query.
\<close>

theorem matchesQuery_priority:
  "(map_of q1 ''$and'' = Some (QArr qs1) \<longrightarrow>
      (matchesQuery env names r (Query q1) = Inr True)
        = (\<forall>x\<in>set qs1. matchesQuery env names r x = Inr True))
   \<and> (map_of q2 ''$and'' = None \<and> map_of q2 ''$or'' = Some (QArr qs2)
        \<and> (\<forall>x\<in>set qs2. \<exists>b. matchesQuery env names r x = Inr b) \<longrightarrow>
      (matchesQuery env names r (Query q2) = Inr True)
        = (\<exists>x\<in>set qs2. matchesQuery env names r x = Inr True))
   \<and> (map_of q3 ''$and'' = None \<and> map_of q3 ''$or'' = None
        \<and> map_of q3 ''$text'' = Some (QStr s) \<longrightarrow>
      matchesQuery env names r (Query q3) = matchesText names r s)
   \<and> (map_of q4 ''$and'' = None \<and> map_of q4 ''$or'' = None \<and> map_of q4 ''$text'' = None \<longrightarrow>
      matchesQuery env names r (Query q4) = matchesPropertyQuery env r q4)"
proof (intro conjI impI)
  assume "map_of q1 ''$and'' = Some (QArr qs1)"
  then show "(matchesQuery env names r (Query q1) = Inr True)
        = (\<forall>x\<in>set qs1. matchesQuery env names r x = Inr True)"
    by (simp add: every_true_iff)
next
  assume h: "map_of q2 ''$and'' = None \<and> map_of q2 ''$or'' = Some (QArr qs2)
        \<and> (\<forall>x\<in>set qs2. \<exists>b. matchesQuery env names r x = Inr b)"
  then have "matchesQuery env names r (Query q2) = some (matchesQuery env names r) qs2"
    by simp
  then show "(matchesQuery env names r (Query q2) = Inr True)
        = (\<exists>x\<in>set qs2. matchesQuery env names r x = Inr True)"
    using h some_true_iff [of qs2 "matchesQuery env names r"] by simp
next
  assume "map_of q3 ''$and'' = None \<and> map_of q3 ''$or'' = None
        \<and> map_of q3 ''$text'' = Some (QStr s)"
  then show "matchesQuery env names r (Query q3) = matchesText names r s"
    by simp
next
  assume "map_of q4 ''$and'' = None \<and> map_of q4 ''$or'' = None \<and> map_of q4 ''$text'' = None"
  then show "matchesQuery env names r (Query q4) = matchesPropertyQuery env r q4"
    by simp
qed

theorem matchesQuery_priority_witness:
  "matchesQuery example_env [''name''] ann
     (Query [(''$text'', QStr ''zzz''), (''$or'', QArr []), (''$and'', QArr [Query [], Query []])])
     = Inr True
   \<and> matchesQuery example_env [''name''] ann
     (Query [(''$text'', QStr ''zzz''), (''$or'', QArr [Query [(''$or'', QArr [])], Query []])])
     = Inr True
   \<and> matchesQuery example_env [''name''] ann
     (Query [(''name'', QCond (Condition (Some (VStr ''Bob'')) None None None)),
             (''$text'', QStr ''ANN'')])
     = matchesText [''name''] ann ''ANN''
   \<and> matchesQuery example_env [''name''] ann
     (Query [(''name'', QCond (Condition (Some (VStr ''Bob'')) None None None))])
     = matchesPropertyQuery example_env ann
         [(''name'', QCond (Condition (Some (VStr ''Bob'')) None None None))]"
proof -
  let ?q1 = "[(''$text'', QStr ''zzz''), (''$or'', QArr []), (''$and'', QArr [Query [], Query []])]"
  let ?q2 = "[(''$text'', QStr ''zzz''), (''$or'', QArr [Query [(''$or'', QArr [])], Query []])]"
  let ?q3 = "[(''name'', QCond (Condition (Some (VStr ''Bob'')) None None None)),
              (''$text'', QStr ''ANN'')]"
  let ?q4 = "[(''name'', QCond (Condition (Some (VStr ''Bob'')) None None None))]"
  have empty: "matchesQuery example_env [''name''] ann (Query []) = Inr True"
    by (simp add: matchesPropertyQuery_def getObjectKeys_def)
  have none: "matchesQuery example_env [''name''] ann (Query [(''$or'', QArr [])]) = Inr False"
    by simp
  have h1: "map_of ?q1 ''$and'' = Some (QArr [Query [], Query []])"
    by simp
  have h2: "map_of ?q2 ''$and'' = None
      \<and> map_of ?q2 ''$or'' = Some (QArr [Query [(''$or'', QArr [])], Query []])
      \<and> (\<forall>x\<in>set [Query [(''$or'', QArr [])], Query []].
            \<exists>b. matchesQuery example_env [''name''] ann x = Inr b)"
    using empty none by auto
  have h3: "map_of ?q3 ''$and'' = None \<and> map_of ?q3 ''$or'' = None
      \<and> map_of ?q3 ''$text'' = Some (QStr ''ANN'')"
    by simp
  have h4: "map_of ?q4 ''$and'' = None \<and> map_of ?q4 ''$or'' = None \<and> map_of ?q4 ''$text'' = None"
    by simp
  note t = matchesQuery_priority [of ?q1 "[Query [], Query []]" example_env "[''name'']" ann
      ?q2 "[Query [(''$or'', QArr [])], Query []]" ?q3 "''ANN''" ?q4]
  have c1: "matchesQuery example_env [''name''] ann (Query ?q1) = Inr True"
    using t h1 empty by simp
  have c2: "matchesQuery example_env [''name''] ann (Query ?q2) = Inr True"
    using t h2 empty by simp
  have c3: "matchesQuery example_env [''name''] ann (Query ?q3) = matchesText [''name''] ann ''ANN''"
    using t h3 by blast
  have c4: "matchesQuery example_env [''name''] ann (Query ?q4)
      = matchesPropertyQuery example_env ann ?q4"
    using t h4 by blast
  show ?thesis
    using c1 c2 c3 c4 by blast
qed

lemma mapE_asString:
  "(\<forall>k\<in>set names. \<exists>t. field_of r k = VStr t) \<Longrightarrow>
   mapE (\<lambda>key. asString (field_of r key)) names = Inr (map (\<lambda>k. the_str (field_of r k)) names)"
  by (induction names) (auto simp: asString_def the_str_def)

lemma matchesText_strings:
  assumes "\<forall>k\<in>set names. \<exists>t. field_of r k = VStr t"
  shows "matchesText names r s =
     Inr (\<forall>x\<in>set (split_on CHR '' '' (toLowerCase s)).
            \<exists>k\<in>set names. \<exists>t. field_of r k = VStr t
               \<and> x \<in> set (split_on CHR '' '' (toLowerCase t)))"
proof -
  have "(\<exists>k\<in>set names. x \<in> set (split_on CHR '' '' (toLowerCase (the_str (field_of r k)))))
      = (\<exists>k\<in>set names. \<exists>t. field_of r k = VStr t
               \<and> x \<in> set (split_on CHR '' '' (toLowerCase t)))" for x
  proof
    assume "\<exists>k\<in>set names. x \<in> set (split_on CHR '' '' (toLowerCase (the_str (field_of r k))))"
    then obtain k where k: "k \<in> set names"
      "x \<in> set (split_on CHR '' '' (toLowerCase (the_str (field_of r k))))"
      by blast
    obtain t where t: "field_of r k = VStr t"
      using assms k(1) by blast
    then have "x \<in> set (split_on CHR '' '' (toLowerCase t))"
      using k(2) by (simp add: the_str_def)
    then show "\<exists>k\<in>set names. \<exists>t. field_of r k = VStr t
               \<and> x \<in> set (split_on CHR '' '' (toLowerCase t))"
      using k(1) t by blast
  next
    assume "\<exists>k\<in>set names. \<exists>t. field_of r k = VStr t
               \<and> x \<in> set (split_on CHR '' '' (toLowerCase t))"
    then obtain k t where "k \<in> set names" "field_of r k = VStr t"
      "x \<in> set (split_on CHR '' '' (toLowerCase t))"
      by blast
    then show "\<exists>k\<in>set names. x \<in> set (split_on CHR '' '' (toLowerCase (the_str (field_of r k))))"
      by (auto simp: the_str_def intro!: bexI [of _ k])
  qed
  then show ?thesis
    using assms by (simp add: matchesText_def mapE_asString list_all_iff list_ex_iff)
qed

text \<open>
  C4, as the code has it: on a record whose configured full-text fields hold strings, a
  full-text query matches exactly when every piece of the lower-cased search string,
  split at each single space, is one of the pieces of the lower-cased value, split the
  same way, of at least one configured field. Adjacent, leading and trailing spaces
  give empty pieces, and no other white space separates pieces. The search
  \<^verbatim>\<open>alpha beta\<close> matches the field \<^verbatim>\<open>Alpha Gamma Beta\<close> and not the field
  \<^verbatim>\<open>Alphabeta\<close>.
\<close>

theorem text_query_tokens:
  "(map_of q ''$and'' = None \<and> map_of q ''$or'' = None \<and> map_of q ''$text'' = Some (QStr s)
      \<and> (\<forall>k\<in>set names. \<exists>t. field_of r k = VStr t) \<longrightarrow>
    matchesQuery env names r (Query q) =
      Inr (\<forall>x\<in>set (split_on CHR '' '' (toLowerCase s)).
            \<exists>k\<in>set names. \<exists>t. field_of r k = VStr t
               \<and> x \<in> set (split_on CHR '' '' (toLowerCase t))))
   \<and> matchesQuery example_env [''bio''] (bio_record ''Alpha Gamma Beta'')
        (Query [(''$text'', QStr ''alpha beta'')]) = Inr True
   \<and> matchesQuery example_env [''bio''] (bio_record ''Alphabeta'')
        (Query [(''$text'', QStr ''alpha beta'')]) = Inr False"
proof (intro conjI impI)
  assume h: "map_of q ''$and'' = None \<and> map_of q ''$or'' = None
      \<and> map_of q ''$text'' = Some (QStr s)
      \<and> (\<forall>k\<in>set names. \<exists>t. field_of r k = VStr t)"
  then have "matchesQuery env names r (Query q) = matchesText names r s"
    by simp
  then show "matchesQuery env names r (Query q) =
      Inr (\<forall>x\<in>set (split_on CHR '' '' (toLowerCase s)).
            \<exists>k\<in>set names. \<exists>t. field_of r k = VStr t
               \<and> x \<in> set (split_on CHR '' '' (toLowerCase t)))"
    using h matchesText_strings by simp
next
  show "matchesQuery example_env [''bio''] (bio_record ''Alpha Gamma Beta'')
        (Query [(''$text'', QStr ''alpha beta'')]) = Inr True"
    by code_simp
next
  show "matchesQuery example_env [''bio''] (bio_record ''Alphabeta'')
        (Query [(''$text'', QStr ''alpha beta'')]) = Inr False"
    by code_simp
qed

theorem text_query_tokens_witness:
  "matchesQuery example_env [''name''] ann (Query [(''$text'', QStr ''ANN'')]) = Inr True"
proof -
  have h: "map_of [(''$text'', QStr ''ANN'')] ''$and'' = None
      \<and> map_of [(''$text'', QStr ''ANN'')] ''$or'' = None
      \<and> map_of [(''$text'', QStr ''ANN'')] ''$text'' = Some (QStr ''ANN'')
      \<and> (\<forall>k\<in>set [''name'']. \<exists>t. field_of ann k = VStr t)"
    by (simp add: field_of_def ann_def)
  have l: "toLowerCase ''ANN'' = ''ann''" "toLowerCase ''Ann'' = ''ann''"
    by code_simp+
  have f: "field_of ann ''name'' = VStr ''Ann''"
    by (simp add: field_of_def ann_def)
  show ?thesis
    using text_query_tokens [of "[(''$text'', QStr ''ANN'')]" "''ANN''" "[''name'']" ann example_env] h
    by (simp add: l f)
qed

text \<open>
  C4 as stated fails on a search string with a tab or with two adjacent spaces: its
  white-space-delimited tokens \<^verbatim>\<open>alpha\<close> and \<^verbatim>\<open>beta\<close> are both tokens of the
  field \<^verbatim>\<open>Alpha Gamma Beta\<close>, and the code does not match, since it looks for the
  piece with the tab inside, or for the empty piece between the two spaces.
\<close>

theorem text_query_whitespace_counterexample:
  "matchesQuery example_env [''bio''] (bio_record ''Alpha Gamma Beta'')
     (Query [(''$text'', QStr (''alpha'' @ [CHR 0x09] @ ''beta''))]) = Inr False
   \<and> claimed_text_match [''bio''] (bio_record ''Alpha Gamma Beta'') (''alpha'' @ [CHR 0x09] @ ''beta'')
   \<and> matchesQuery example_env [''bio''] (bio_record ''Alpha Gamma Beta'')
     (Query [(''$text'', QStr ''alpha  beta'')]) = Inr False
   \<and> claimed_text_match [''bio''] (bio_record ''Alpha Gamma Beta'') ''alpha  beta''"
  by code_simp

section \<open>Properties of sort\<close>




















section \<open>Properties of the collection and its log\<close>

lemma those_None_iff: "(those xs = None) = (None \<in> set xs)"
  by (induction xs) (auto split: option.splits)

text \<open>A read that fails does reach the caller: find and delete reject with its error.\<close>

lemma read_failure_rejects:
  assumes "fs_readFile st = Inl e"
  shows "find_db env names query options st = (Rejected (IOError e), st)"
    and "delete_db env names query st = (Rejected (IOError e), st)"
  using assms by (simp_all add: find_db_def delete_db_def getRecords_def)

text \<open>
  C5: a failure of the storage is to reach the caller of find, insert and delete as a
  rejection. The code does so for the read (getRecords rejects with the error of
  fs.readFile). On a file that cannot be written, insert resolves although nothing was
  appended, and delete resolves although the file was neither truncated nor rewritten:
  the record it was to delete is still found.
\<close>

theorem write_failure_is_swallowed:
  "insert_db example_env ann False readonly_log = (Resolved (), readonly_log)
   \<and> delete_db example_env [] (name_is ''Bob'') readonly_log = (Resolved (), readonly_log)
   \<and> find_db example_env [] (name_is ''Bob'') None readonly_log = (Resolved [bob], readonly_log)"
  by code_simp

text \<open>
  C6: when a line of the log that starts with \<^verbatim>\<open>E\<close> is not valid JSON, the read
  fails as a whole. getRecords returns no records at all, the exception of JSON.parse
  being thrown out of the callback of fs.readFile; find and delete end the same way,
  and delete has not touched the file.
\<close>

theorem decode_failure_is_fatal:
  assumes "fs_readFile st = Inr data"
    and "l \<in> set (split_on newline (trim data))"
    and "take 1 l = ''E''"
    and "JSON_parse env (drop 1 l) = None"
  shows "getRecords env st = Fatal SyntaxError
    \<and> find_db env names query options st = (Fatal SyntaxError, st)
    \<and> delete_db env names query st = (Fatal SyntaxError, st)"
proof -
  have "None \<in> set (map (\<lambda>x. JSON_parse env (drop 1 x))
           (filter (\<lambda>x. take 1 x = ''E'') (split_on newline (trim data))))"
    using assms(2-4) by force
  then have "those (map (\<lambda>x. JSON_parse env (drop 1 x))
           (filter (\<lambda>x. take 1 x = ''E'') (split_on newline (trim data)))) = None"
    by (simp only: those_None_iff)
  then have "getRecords env st = Fatal SyntaxError"
    using assms(1) by (simp add: getRecords_def)
  then show ?thesis
    by (simp add: find_db_def delete_db_def)
qed

theorem decode_failure_is_fatal_witness:
  "getRecords example_env corrupt_log = Fatal SyntaxError
    \<and> find_db example_env [] (Query []) None corrupt_log = (Fatal SyntaxError, corrupt_log)
    \<and> delete_db example_env [] (Query []) corrupt_log = (Fatal SyntaxError, corrupt_log)"
proof -
  have h1: "fs_readFile corrupt_log
      = Inr (''E{\"name\":\"Ann\",\"age\":30}'' @ [newline] @ ''E{\"name\":'' @ [newline])"
    by (simp add: fs_readFile_def corrupt_log_def)
  have h2: "''E{\"name\":'' \<in> set (split_on newline
      (trim (''E{\"name\":\"Ann\",\"age\":30}'' @ [newline] @ ''E{\"name\":'' @ [newline])))"
    by code_simp
  have h3: "take 1 ''E{\"name\":'' = ''E''"
    by simp
  have h4: "JSON_parse example_env (drop 1 ''E{\"name\":'') = None"
    by (simp add: example_env_def)
  show ?thesis
    using decode_failure_is_fatal [OF h1 h2 h3 h4] by simp
qed

































text \<open>
  C10: find does not modify the backing log. Whatever the query and the options, and
  however the call ends, the file after find is the file before it.
\<close>

theorem find_leaves_log_unchanged:
  "snd (find_db env names query options st) = st"
  by (simp add: find_db_def split: outcome.splits sum.splits option.splits)

section \<open>The scenario of the specification\<close>

text \<open>
  The log holds live lines for Ann (30) and Bob (25). The query
  \<^verbatim>\<open>{age: {$gt: 26}}\<close> finds Ann; the empty query sorted by ascending age gives Bob,
  then Ann; after the delete of the records named Bob the empty query finds Ann.
\<close>

lemma scenario:
  "fst (find_db example_env []
      (Query [(''age'', QCond (Condition None (Some (VNum 26)) None None))]) None example_store)
     = Resolved [ann]"
  "fst (find_db example_env [] (Query [])
      (Some \<lparr>sort_option = Some [(''age'', 1)], projection = None\<rparr>) example_store)
     = Resolved [bob, ann]"
  "fst (find_db example_env [] (Query []) None
      (snd (delete_db example_env [] (name_is ''Bob'') example_store)))
     = Resolved [ann]"
  by code_simp+

end
